theory Spec2Isabelle
  imports Complex_Main
begin

section \<open>Numbers and their renderings\<close>

text \<open>
  The monitoring code computes on Python and NumPy floats. The model uses the reals: every
  finite float is a real, comparisons of finite floats agree with comparisons of the reals
  they denote, and the rounding steps that the source writes out (\<open>round(x, 4)\<close>,
  \<open>round(x, 2)\<close>, the format \<open>.3f\<close>) are modelled as decimal rounding of the exact value,
  ties going to the even neighbour. Not-a-number and the infinities are outside the model.
\<close>

definition round_half_even :: "real \<Rightarrow> int" where
  "round_half_even x =
     (let f = \<lfloor>x\<rfloor>; d = x - of_int f
      in if d < 1 / 2 then f
         else if 1 / 2 < d then f + 1
         else if even f then f else f + 1)"

definition py_round :: "real \<Rightarrow> nat \<Rightarrow> real" where
  \<comment> \<open>\<open>round(x, ndigits)\<close>\<close>
  "py_round x ndigits = of_int (round_half_even (x * 10 ^ ndigits)) / 10 ^ ndigits"





section \<open>KPI monitor: threshold classification and alerts\<close>

record thresholds =
  t_min :: real
  t_max :: real
  t_critical :: real

text \<open>The table \<open>self.alert_thresholds\<close> set up by \<open>KPIMonitor.__init__\<close>.\<close>

definition alert_thresholds :: "(string \<times> thresholds) list" where
  "alert_thresholds =
     [(''accuracy'', \<lparr>t_min = 0.85, t_max = 1.0, t_critical = 0.80\<rparr>),
      (''precision'', \<lparr>t_min = 0.80, t_max = 1.0, t_critical = 0.75\<rparr>),
      (''recall'', \<lparr>t_min = 0.75, t_max = 1.0, t_critical = 0.70\<rparr>),
      (''f1_score'', \<lparr>t_min = 0.80, t_max = 1.0, t_critical = 0.75\<rparr>),
      (''auc_score'', \<lparr>t_min = 0.85, t_max = 1.0, t_critical = 0.80\<rparr>),
      (''false_positive_rate'', \<lparr>t_min = 0.0, t_max = 0.1, t_critical = 0.15\<rparr>),
      (''false_negative_rate'', \<lparr>t_min = 0.0, t_max = 0.2, t_critical = 0.25\<rparr>)]"

text \<open>
  The \<open>if\<close>/\<open>elif\<close> chain of \<open>check_kpi_thresholds\<close> that determines the pair
  (status, severity) of one value, in the order of the source.
\<close>

definition kpi_status :: "real \<Rightarrow> thresholds \<Rightarrow> string \<times> string" where
  "kpi_status v th =
     (if v < t_critical th then (''critical'', ''high'')
      else if v < t_min th then (''warning'', ''medium'')
      else if t_max th < v then (''warning'', ''medium'')
      else (''healthy'', ''low''))"




section \<open>KPI monitor: metric calculation\<close>

text \<open>
  A row of the query of \<open>calculate_kpis\<close>: the actual label \<open>is_fraud\<close>, the predicted
  label \<open>prediction\<close> (both columns are BOOLEAN) and the fraud probability.
\<close>

type_synonym outcome_row = "bool \<times> bool \<times> real"

definition correct_predictions :: "outcome_row list \<Rightarrow> nat" where
  "correct_predictions df = length (filter (\<lambda>(actual, predicted, probability). actual = predicted) df)"

definition tp :: "outcome_row list \<Rightarrow> nat" where
  "tp df = length (filter (\<lambda>(actual, predicted, probability). actual \<and> predicted) df)"

definition fp :: "outcome_row list \<Rightarrow> nat" where
  "fp df = length (filter (\<lambda>(actual, predicted, probability). \<not> actual \<and> predicted) df)"

definition tn :: "outcome_row list \<Rightarrow> nat" where
  "tn df = length (filter (\<lambda>(actual, predicted, probability). \<not> actual \<and> \<not> predicted) df)"

definition fn :: "outcome_row list \<Rightarrow> nat" where
  "fn df = length (filter (\<lambda>(actual, predicted, probability). actual \<and> \<not> predicted) df)"

text \<open>
  \<open>calculate_kpis\<close> on the rows the query returned. The function has no \<open>raise\<close>: the
  result type is a sum only so that an exception (\<open>Inl\<close>, with the name of its class) and a
  returned dictionary (\<open>Inr\<close>, the list of its items in insertion order) are told apart.
\<close>

definition calculate_kpis :: "outcome_row list \<Rightarrow> string + (string \<times> real) list" where
  "calculate_kpis result =
     (if result = [] then Inr []
      else
        let total_samples = length result;
            accuracy = (if 0 < total_samples
                        then real (correct_predictions result) / real total_samples else 0);
            precision = (if 0 < tp result + fp result
                         then real (tp result) / real (tp result + fp result) else 0);
            recall = (if 0 < tp result + fn result
                      then real (tp result) / real (tp result + fn result) else 0);
            f1_score = (if 0 < precision + recall
                        then 2 * (precision * recall) / (precision + recall) else 0);
            false_positive_rate = (if 0 < fp result + tn result
                                   then real (fp result) / real (fp result + tn result) else 0);
            false_negative_rate = (if 0 < fn result + tp result
                                   then real (fn result) / real (fn result + tp result) else 0);
            auc_score = 0.85
        in Inr [(''accuracy'', py_round accuracy 4),
                (''precision'', py_round precision 4),
                (''recall'', py_round recall 4),
                (''f1_score'', py_round f1_score 4),
                (''auc_score'', py_round auc_score 4),
                (''false_positive_rate'', py_round false_positive_rate 4),
                (''false_negative_rate'', py_round false_negative_rate 4),
                (''total_samples'', real total_samples)])"

section \<open>Coverage monitor\<close>





record coverage_result =
  coverage_percentage :: real
  total_samples :: int
  covered_samples :: int
  gap_count :: int
  risk_category :: "string option"
  time_window_hours :: "int option"


section \<open>Drift detector\<close>

text \<open>
  The dictionary the detection methods return. The early returns carry only the first four
  keys; a missing key is \<open>None\<close>. The key \<open>severity\<close> is the field \<open>drift_severity\<close> here,
  the name \<open>severity\<close> being the alert's.
\<close>

record drift_result =
  drift_score :: real
  p_value :: real
  drift_detected :: bool
  drift_type :: string
  drift_severity :: "string option"
  feature_name :: "string option"
  baseline_accuracy :: "real option"
  recent_accuracy :: "real option"

text \<open>
  \<open>detect_statistical_drift\<close>. A data frame is the list of the values of its column
  \<open>amount\<close>, one per row, so the empty frame is the empty list. The library call
  \<open>stats.ks_2samp\<close>, which returns the pair (statistic, p-value), and the setting
  \<open>settings.drift_threshold\<close> are parameters.
\<close>

definition detect_statistical_drift ::
  "(real list \<Rightarrow> real list \<Rightarrow> real \<times> real) \<Rightarrow> real \<Rightarrow> real list \<Rightarrow> real list \<Rightarrow> string \<Rightarrow> drift_result" where
  "detect_statistical_drift ks_2samp drift_threshold baseline_data current_data name =
     (if baseline_data = [] \<or> current_data = []
      then \<lparr>drift_score = 0, p_value = 1, drift_detected = False,
            drift_type = ''insufficient_data'', drift_severity = None, feature_name = None,
            baseline_accuracy = None, recent_accuracy = None\<rparr>
      else
        let (ks_statistic, p) = ks_2samp baseline_data current_data;
            score = ks_statistic;
            detected = (p < 0.05 \<and> drift_threshold < score);
            sev = (if 0.3 < score then ''high'' else if 0.15 < score then ''medium'' else ''low'')
        in \<lparr>drift_score = py_round score 4, p_value = py_round p 4, drift_detected = detected,
            drift_type = ''statistical'', drift_severity = Some sev, feature_name = Some name,
            baseline_accuracy = None, recent_accuracy = None\<rparr>)"

text \<open>
  The statistic of the two-sample Kolmogorov-Smirnov test, which the library computes and the
  repository does not contain: the largest distance between the two empirical distribution
  functions, taken over the points of the pooled sample.
\<close>

definition ecdf :: "real list \<Rightarrow> real \<Rightarrow> real" where
  "ecdf xs x = real (length (filter (\<lambda>y. y \<le> x) xs)) / real (length xs)"

definition ks_statistic :: "real list \<Rightarrow> real list \<Rightarrow> real" where
  "ks_statistic xs ys = foldr max (map (\<lambda>x. \<bar>ecdf xs x - ecdf ys x\<bar>) (xs @ ys)) 0"






section \<open>Playbook execution\<close>









section \<open>Notions used to state the properties\<close>





text \<open>
  Instances of the two parameters that stand for code outside the model: a library test that
  returns the statistic above with a given p-value, and action bodies that raise on one named
  action or on none.
\<close>

definition ks_test_with_p :: "real \<Rightarrow> real list \<Rightarrow> real list \<Rightarrow> real \<times> real" where
  "ks_test_with_p p xs ys = (ks_statistic xs ys, p)"



section \<open>Properties of the rounding\<close>







section \<open>Threshold classification\<close>

text \<open>
  Against claim C1 as stated: a value equal to the upper bound \<open>max\<close> is not always healthy.
  In the monitor's own table the thresholds of \<open>false_positive_rate\<close> have \<open>critical\<close>
  above \<open>max\<close>, and the value 0.1, equal to \<open>max\<close>, is classified critical.
\<close>

theorem kpi_status_max_counterexample:
  "map_of alert_thresholds ''false_positive_rate'' =
     Some \<lparr>t_min = 0.0, t_max = 0.1, t_critical = 0.15\<rparr>
   \<and> kpi_status 0.1 \<lparr>t_min = 0.0, t_max = 0.1, t_critical = 0.15\<rparr> = (''critical'', ''high'')
   \<and> fst (kpi_status 0.1 \<lparr>t_min = 0.0, t_max = 0.1, t_critical = 0.15\<rparr>) \<noteq> ''healthy''"
  by (simp add: alert_thresholds_def kpi_status_def)

text \<open>
  Claim C1, amended. Every value and every thresholds record get exactly one of the three
  pairs (status, severity): critical and high if the value is below \<open>critical\<close>; otherwise
  warning and medium if it is below \<open>min\<close> or above \<open>max\<close>; otherwise healthy and low. A
  value equal to \<open>min\<close> or to \<open>max\<close> is healthy provided it is not below \<open>critical\<close> and
  \<open>min\<close> is at most \<open>max\<close>. With thresholds 0.85, 1.0, 0.80 the value 0.75 is critical
  with severity high.
\<close>

theorem kpi_status_classification:
  "kpi_status v th =
     (if v < t_critical th then (''critical'', ''high'')
      else if v < t_min th \<or> t_max th < v then (''warning'', ''medium'')
      else (''healthy'', ''low''))
   \<and> kpi_status v th \<in> {(''critical'', ''high''), (''warning'', ''medium''), (''healthy'', ''low'')}
   \<and> ((v = t_min th \<or> v = t_max th) \<and> t_critical th \<le> v \<and> t_min th \<le> t_max th
        \<longrightarrow> kpi_status v th = (''healthy'', ''low''))
   \<and> kpi_status 0.75 \<lparr>t_min = 0.85, t_max = 1.0, t_critical = 0.80\<rparr> = (''critical'', ''high'')"
  by (auto simp add: kpi_status_def)

theorem kpi_status_classification_witness:
  "((0.85::real) = 0.85 \<or> (0.85::real) = 1.0) \<and> (0.80::real) \<le> 0.85 \<and> (0.85::real) \<le> 1.0
   \<and> kpi_status 0.85 \<lparr>t_min = 0.85, t_max = 1.0, t_critical = 0.80\<rparr> = (''healthy'', ''low'')"
  using kpi_status_classification [of "0.85" "\<lparr>t_min = 0.85, t_max = 1.0, t_critical = 0.80\<rparr>"]
  by simp

section \<open>The empty window and the constant AUC\<close>




text \<open>
  Claim C10. On every window with at least one row the entry \<open>auc_score\<close> of the result is
  the constant 0.85, whatever the labels and probabilities of the rows.
\<close>

theorem calculate_kpis_auc_constant:
  "result \<noteq> [] \<Longrightarrow>
   \<exists>kpis. calculate_kpis result = Inr kpis \<and> map_of kpis ''auc_score'' = Some 0.85"
  by (simp add: calculate_kpis_def Let_def py_round_def round_half_even_def)

theorem calculate_kpis_auc_constant_witness:
  "[(True, True, 0.95), (False, True, 0.15)] \<noteq> ([]::outcome_row list)
   \<and> (\<exists>kpis. calculate_kpis [(True, True, 0.95), (False, True, 0.15)] = Inr kpis
         \<and> map_of kpis ''auc_score'' = Some 0.85)"
  using calculate_kpis_auc_constant [of "[(True, True, 0.95), (False, True, 0.15)]"]
  by simp

section \<open>Statistical drift\<close>

text \<open>
  Claim C7. When the baseline sample or the current sample is empty,
  \<open>detect_statistical_drift\<close> returns the result with drift score 0, p-value 1, no drift
  detected and drift type \<open>insufficient_data\<close>; the library test is not called and nothing
  is raised.
\<close>

theorem statistical_drift_insufficient_data:
  "baseline_data = [] \<or> current_data = [] \<Longrightarrow>
   detect_statistical_drift ks_2samp drift_threshold baseline_data current_data name =
     \<lparr>drift_score = 0, p_value = 1, drift_detected = False,
      drift_type = ''insufficient_data'', drift_severity = None, feature_name = None,
      baseline_accuracy = None, recent_accuracy = None\<rparr>"
  by (simp add: detect_statistical_drift_def)

theorem statistical_drift_insufficient_data_witness:
  "(([]::real list) = [] \<or> [100, 150, 200 :: real] = [])
   \<and> detect_statistical_drift (ks_test_with_p 1) 0.1 [] [100, 150, 200] ''amount'' =
       \<lparr>drift_score = 0, p_value = 1, drift_detected = False,
        drift_type = ''insufficient_data'', drift_severity = None, feature_name = None,
        baseline_accuracy = None, recent_accuracy = None\<rparr>"
  using statistical_drift_insufficient_data
          [of "[]" "[100, 150, 200]" "ks_test_with_p 1" "0.1" "''amount''"]
  by simp

section \<open>The metrics of a non-empty window\<close>








section \<open>Statistical drift on non-empty samples\<close>







section \<open>Coverage\<close>





section \<open>Concept drift\<close>




section \<open>Playbook execution: every action, one final status\<close>






section \<open>Alerts and their messages\<close>

















end
